theory Spec2Isabelle
  imports Complex_Main "HOL-Library.Sublist"
begin

text \<open>
  A model of the browser-side API client (\<^verbatim>\<open>src/frontend/src/utils/api.js\<close>: the
  response interceptor's error handler, the auth-state helpers, the retry helper) and of
  the server's bootstrap (\<^verbatim>\<open>src/unnamed/part_000\<close> and
  \<^verbatim>\<open>src/backend/server.js\<close>), followed by the properties the specification
  states of them. Each function of the source is a function here under its own name; what
  it changes outside itself is a state passed in and returned; what it throws or rejects
  with is a value. What belongs to the platform (the JSON functions, the database driver,
  \<^verbatim>\<open>app.listen\<close>) is a parameter or is modelled after its documented behaviour,
  and said so where it is introduced.
\<close>

section \<open>JavaScript values and text\<close>

text \<open>
  Numbers printed through a template literal, as in
  \<^verbatim>\<open>`Retrying API call (attempt ${attempt + 1})...`\<close>.
\<close>

function show_nat :: "nat \<Rightarrow> string" where
  "show_nat n =
     (if n < 10 then [''0123456789'' ! n]
      else show_nat (n div 10) @ [''0123456789'' ! (n mod 10)])"
  by pat_completeness auto
termination
  by (relation "measure id") auto

declare show_nat.simps [simp del]

definition show_int :: "int \<Rightarrow> string" where
  "show_int i = (if i < 0 then CHR ''-'' # show_nat (nat (- i)) else show_nat (nat i))"

text \<open>
  A JavaScript string is modelled by the list of its bytes in UTF-8 (a well-formed string;
  a lone surrogate is outside the model). The program tests strings for emptiness and
  equality, concatenates them and looks for a substring: these agree on a string and on
  its bytes.

  A JavaScript number is a finite number, \<^verbatim>\<open>NaN\<close>, an infinity or the negative
  zero; the finite ones are taken among the rationals. A JavaScript value, as far as
  examples need one: \<^verbatim>\<open>undefined\<close>, \<^verbatim>\<open>null\<close>, booleans, numbers, big
  integers, strings, arrays, and objects of plain data as the list of their own
  properties in their order (no key twice). The helpers that store and load the user profile are defined for every type of
  values, not only this one.
\<close>

datatype jsnum = Finite rat | NaN | PosInfinity | NegInfinity | NegZero

datatype jsval =
    JUndefined
  | JNull
  | JBool bool
  | JNum jsnum
  | JBigInt int
  | JStr string
  | JArr "jsval list"
  | JObj "(string \<times> jsval) list"

section \<open>Observable effects of the client module\<close>

text \<open>
  Everything \<^verbatim>\<open>src/frontend/src/utils/api.js\<close> does to the world outside its
  own variables is an effect, recorded in the order it happens: reads and writes of
  \<^verbatim>\<open>localStorage\<close>, writes of the client's default headers, an assignment to
  \<^verbatim>\<open>window.location.href\<close>, console output (by its message text; the values
  appended after the text, and the emoji the source prefixes, are left out), a call of the
  operation under retry, and a timer started with \<^verbatim>\<open>setTimeout\<close> (its delay in
  milliseconds). JavaScript numbers are modelled by rationals: the comparisons and products
  of the retry loop are exact there; NaN and the infinities are outside the model.
\<close>

datatype effect =
    GetItem string
  | SetItem string string
  | RemoveItem string
  | SetHeader string string
  | DeleteHeader string
  | Navigate string
  | ConsoleLog string
  | ConsoleError string
  | Invoke
  | SetTimeout rat

record runtime =
  effects :: "effect list"

definition emit :: "effect list \<Rightarrow> 'm runtime_scheme \<Rightarrow> 'm runtime_scheme" where
  "emit es w = w\<lparr>effects := effects w @ es\<rparr>"

fun invocations :: "effect list \<Rightarrow> nat" where
  "invocations [] = 0"
| "invocations (Invoke # es) = Suc (invocations es)"
| "invocations (_ # es) = invocations es"

fun timeouts :: "effect list \<Rightarrow> rat list" where
  "timeouts [] = []"
| "timeouts (SetTimeout d # es) = d # timeouts es"
| "timeouts (_ # es) = timeouts es"

fun navigations :: "effect list \<Rightarrow> string list" where
  "navigations [] = []"
| "navigations (Navigate target # es) = target # navigations es"
| "navigations (_ # es) = navigations es"

section \<open>The retry helper\<close>

text \<open>
  \<^verbatim>\<open>
  export const apiWithRetry = async (apiCall, maxRetries = 3, delay = 1000) => {
    for (let attempt = 1; attempt <= maxRetries; attempt++) {
      try {
        return await apiCall();
      } catch (error) {
        if (attempt === maxRetries) {
          throw error;
        }
        await new Promise(resolve => setTimeout(resolve, delay * attempt));
        console.log(`Retrying API call (attempt ${attempt + 1})...`);
      }
    }
  };
  \<close>
  The operation is any asynchronous call: it owns a state \<open>'s\<close> (the server, the
  network, a counter in a test), and one invocation settles with an error (\<open>Inl\<close>) or a
  value (\<open>Inr\<close>) and leaves a new state. The promise \<open>apiWithRetry\<close> returns is
  resolved with the operation's value, resolved with \<^verbatim>\<open>undefined\<close> (the loop ran
  out without a \<^verbatim>\<open>return\<close>), or rejected with the operation's error.
\<close>

record 's caller = runtime +
  op_state :: 's

datatype ('e, 'a) settled = Resolved 'a | ResolvedUndefined | Rejected 'e

function apiWithRetry_loop ::
  "('s \<Rightarrow> ('e + 'a) \<times> 's) \<Rightarrow> rat \<Rightarrow> rat \<Rightarrow> int \<Rightarrow> 's caller
     \<Rightarrow> ('e, 'a) settled \<times> 's caller" where
  "apiWithRetry_loop apiCall maxRetries delay attempt w =
     (if of_int attempt \<le> maxRetries then
        (case apiCall (op_state w) of
           (Inr v, s') \<Rightarrow> (Resolved v, emit [Invoke] (w\<lparr>op_state := s'\<rparr>))
         | (Inl e, s') \<Rightarrow>
             if of_int attempt = maxRetries
             then (Rejected e, emit [Invoke] (w\<lparr>op_state := s'\<rparr>))
             else apiWithRetry_loop apiCall maxRetries delay (attempt + 1)
                    (emit [Invoke, SetTimeout (delay * of_int attempt),
                           ConsoleLog (''Retrying API call (attempt '' @ show_int (attempt + 1) @ '')...'')]
                       (w\<lparr>op_state := s'\<rparr>)))
      else (ResolvedUndefined, w))"
  by pat_completeness auto
termination
  by (relation "measure (\<lambda>(apiCall, maxRetries, delay, attempt, w). nat (\<lfloor>maxRetries\<rfloor> + 1 - attempt))")
     (auto simp: le_floor_iff)

declare apiWithRetry_loop.simps [simp del]

text \<open>The default parameters: an argument left out (\<open>None\<close>) is 3 retries, 1000 ms.\<close>

definition apiWithRetry ::
  "('s \<Rightarrow> ('e + 'a) \<times> 's) \<Rightarrow> rat option \<Rightarrow> rat option \<Rightarrow> 's caller
     \<Rightarrow> ('e, 'a) settled \<times> 's caller" where
  "apiWithRetry apiCall maxRetries delay w =
     apiWithRetry_loop apiCall
       (case maxRetries of None \<Rightarrow> 3 | Some m \<Rightarrow> m)
       (case delay of None \<Rightarrow> 1000 | Some d \<Rightarrow> d)
       1 w"

section \<open>The browser side: storage, default headers, location\<close>

text \<open>
  The state the client module reads and writes: \<^verbatim>\<open>localStorage\<close> (string keys to
  string values), \<^verbatim>\<open>api.defaults.headers.common\<close> and
  \<^verbatim>\<open>window.location.pathname\<close>. Assigning \<^verbatim>\<open>window.location.href\<close>
  starts a navigation; the path of the current page is unchanged while the handler runs.
\<close>

record browser = runtime +
  localStorage :: "string \<rightharpoonup> string"
  common_headers :: "string \<rightharpoonup> string"
  pathname :: string

definition getItem :: "string \<Rightarrow> browser \<Rightarrow> string option \<times> browser" where
  "getItem k st = (localStorage st k, emit [GetItem k] st)"

text \<open>
  \<^verbatim>\<open>localStorage.setItem\<close> throws a \<^verbatim>\<open>QuotaExceededError\<close> when the browser
  has no room for the new content. Whether it has is the platform's answer: the parameter
  \<open>quota\<close> says of the content the write would leave whether the browser accepts it.
  \<^verbatim>\<open>getItem\<close> and \<^verbatim>\<open>removeItem\<close> do not throw. The exceptions the helpers
  meet are the quota error, the \<^verbatim>\<open>SyntaxError\<close> of \<^verbatim>\<open>JSON.parse\<close> and the
  \<^verbatim>\<open>TypeError\<close> of \<^verbatim>\<open>JSON.stringify\<close> (\<open>StringifyError\<close>).
\<close>

datatype js_exception = SyntaxError | StringifyError | QuotaExceededError

definition setItem ::
  "((string \<rightharpoonup> string) \<Rightarrow> bool) \<Rightarrow> string \<Rightarrow> string \<Rightarrow> browser
     \<Rightarrow> (js_exception + unit) \<times> browser" where
  "setItem quota k v st =
     (if quota ((localStorage st)(k \<mapsto> v))
      then (Inr (), emit [SetItem k v] (st\<lparr>localStorage := (localStorage st)(k \<mapsto> v)\<rparr>))
      else (Inl QuotaExceededError, st))"

definition removeItem :: "string \<Rightarrow> browser \<Rightarrow> browser" where
  "removeItem k st = emit [RemoveItem k] (st\<lparr>localStorage := (localStorage st)(k := None)\<rparr>)"

definition set_common_header :: "string \<Rightarrow> string \<Rightarrow> browser \<Rightarrow> browser" where
  "set_common_header h v st =
     emit [SetHeader h v] (st\<lparr>common_headers := (common_headers st)(h \<mapsto> v)\<rparr>)"

definition delete_common_header :: "string \<Rightarrow> browser \<Rightarrow> browser" where
  "delete_common_header h st =
     emit [DeleteHeader h] (st\<lparr>common_headers := (common_headers st)(h := None)\<rparr>)"

definition console_error :: "string \<Rightarrow> browser \<Rightarrow> browser" where
  "console_error msg st = emit [ConsoleError msg] st"

definition set_location_href :: "string \<Rightarrow> browser \<Rightarrow> browser" where
  "set_location_href target st = emit [Navigate target] st"

text \<open>\<^verbatim>\<open>String.prototype.includes\<close>: the argument occurs somewhere in the string.\<close>

fun includes_str :: "string \<Rightarrow> string \<Rightarrow> bool" where
  "includes_str [] sub = (sub = [])"
| "includes_str (c # cs) sub = (prefix sub (c # cs) \<or> includes_str cs sub)"

section \<open>The response interceptor's error handler\<close>

text \<open>
  The error an interceptor receives, as far as the handler reads it: the request's
  configuration (absent on an error that did not come from a dispatched request), the
  response (present when the server answered), whether a request object is attached, and
  the message. The field \<open>http_method\<close> is the source's \<^verbatim>\<open>method\<close>.
\<close>

record axios_config =
  url :: string
  http_method :: string

record axios_response =
  status :: int
  data :: jsval

record axios_error =
  config :: "axios_config option"
  response :: "axios_response option"
  request :: bool
  message :: string

text \<open>
  What the handler's promise is rejected with: the error it was given, or the
  \<^verbatim>\<open>TypeError\<close> that reading \<^verbatim>\<open>error.config.url\<close> throws when
  \<^verbatim>\<open>error.config\<close> is undefined. The errors axios builds for a response carry
  the configuration of the request, so that throw needs an error made elsewhere. The
  statements of \<^verbatim>\<open>case 401\<close> are \<open>on_unauthorized\<close>; the handler as a whole is
  \<open>response_onRejected\<close>.
  \<^verbatim>\<open>
  (error) => {
    console.error('API Error:', {...});
    if (error.response) {
      const { status, data } = error.response;
      switch (status) {
        case 401:
          localStorage.removeItem('token');
          localStorage.removeItem('user');
          delete api.defaults.headers.common['Authorization'];
          if (!window.location.pathname.includes('/login')) {
            window.location.href = '/login';
          }
          break;
        case 403: console.error('Access denied: ...'); break;
        case 404: console.error('Resource not found:', error.config.url); break;
        case 500: console.error('Server error occurred. Please try again later.'); break;
        default:  console.error(`Server error (${status}):`, data?.message || 'Unknown error');
      }
    } else if (error.request) {
      console.error('Network error: No response from server. Please check your connection.');
    } else {
      console.error('Request setup error:', error.message);
    }
    return Promise.reject(error);
  }
  \<close>
\<close>

datatype rejection = Original axios_error | TypeError

definition on_unauthorized :: "browser \<Rightarrow> browser" where
  "on_unauthorized st =
     (let st1 = removeItem ''token'' st;
          st2 = removeItem ''user'' st1;
          st3 = delete_common_header ''Authorization'' st2
      in if \<not> includes_str (pathname st3) ''/login''
         then set_location_href ''/login'' st3
         else st3)"

definition response_onRejected :: "axios_error \<Rightarrow> browser \<Rightarrow> rejection \<times> browser" where
  "response_onRejected error st =
     (let st0 = console_error ''API Error:'' st in
      case response error of
        Some resp \<Rightarrow>
          if status resp = 401 then (Original error, on_unauthorized st0)
          else if status resp = 403 then
            (Original error,
             console_error ''Access denied: You do not have permission for this action'' st0)
          else if status resp = 404 then
            (case config error of
               None \<Rightarrow> (TypeError, st0)
             | Some cfg \<Rightarrow> (Original error, console_error ''Resource not found:'' st0))
          else if status resp = 500 then
            (Original error,
             console_error ''Server error occurred. Please try again later.'' st0)
          else
            (Original error,
             console_error (''Server error ('' @ show_int (status resp) @ ''):'') st0)
      | None \<Rightarrow>
          if request error then
            (Original error,
             console_error
               ''Network error: No response from server. Please check your connection.'' st0)
          else (Original error, console_error ''Request setup error:'' st0))"

section \<open>The auth-state helpers\<close>

text \<open>
  \<^verbatim>\<open>
  export const isAuthenticated = () => {
    const token = localStorage.getItem('token');
    return !!token;
  };
  \<close>
  \<^verbatim>\<open>!!token\<close> is false for \<^verbatim>\<open>null\<close> (no such key) and for the empty string.
\<close>

definition isAuthenticated :: "browser \<Rightarrow> bool \<times> browser" where
  "isAuthenticated st =
     (let (token, st1) = getItem ''token'' st
      in (case token of None \<Rightarrow> False | Some t \<Rightarrow> t \<noteq> [], st1))"

text \<open>
  \<^verbatim>\<open>
  export const getCurrentUser = () => {
    try {
      const userStr = localStorage.getItem('user');
      return userStr ? JSON.parse(userStr) : null;
    } catch (error) {
      console.error('Error parsing user data:', error);
      return null;
    }
  };
  \<close>
  \<^verbatim>\<open>JSON.parse\<close> and \<^verbatim>\<open>JSON.stringify\<close> belong to the JavaScript runtime,
  not to this repository: the helpers take them as parameters, and with them the type
  \<open>'v\<close> of the values they read and write and its \<^verbatim>\<open>null\<close>. \<open>parse s = None\<close> is
  \<^verbatim>\<open>JSON.parse(s)\<close> throwing its \<^verbatim>\<open>SyntaxError\<close>. The body of the
  \<^verbatim>\<open>try\<close> block either returns or throws; the \<^verbatim>\<open>catch\<close> clause turns the
  throw into a log line and \<^verbatim>\<open>null\<close>.
\<close>

definition getCurrentUser_try ::
  "'v \<Rightarrow> (string \<Rightarrow> 'v option) \<Rightarrow> browser \<Rightarrow> (js_exception + 'v) \<times> browser" where
  "getCurrentUser_try null parse st =
     (let (userStr, st1) = getItem ''user'' st
      in (case userStr of
            None \<Rightarrow> Inr null
          | Some s \<Rightarrow>
              if s = [] then Inr null
              else (case parse s of None \<Rightarrow> Inl SyntaxError | Some v \<Rightarrow> Inr v),
          st1))"

definition getCurrentUser :: "'v \<Rightarrow> (string \<Rightarrow> 'v option) \<Rightarrow> browser \<Rightarrow> 'v \<times> browser" where
  "getCurrentUser null parse st =
     (case getCurrentUser_try null parse st of
        (Inr v, st1) \<Rightarrow> (v, st1)
      | (Inl e, st1) \<Rightarrow> (null, console_error ''Error parsing user data:'' st1))"

text \<open>
  \<^verbatim>\<open>
  export const setAuth = (token, user) => {
    localStorage.setItem('token', token);
    localStorage.setItem('user', JSON.stringify(user));
    api.defaults.headers.common['Authorization'] = `Bearer ${token}`;
  };
  export const clearAuth = () => {
    localStorage.removeItem('token');
    localStorage.removeItem('user');
    delete api.defaults.headers.common['Authorization'];
  };
  \<close>
  \<^verbatim>\<open>JSON.stringify\<close> gives a text, or \<^verbatim>\<open>undefined\<close> (for
  \<^verbatim>\<open>undefined\<close> itself), or throws a \<^verbatim>\<open>TypeError\<close> (a big integer, a
  cyclic object). \<^verbatim>\<open>setItem\<close> stores the string form of its argument:
  \<^verbatim>\<open>undefined\<close> is stored as the nine characters of its name. \<open>setAuth\<close> has no
  \<^verbatim>\<open>try\<close>: a throw of its second line leaves the first line done, and a throw
  anywhere ends the call there.
\<close>

datatype stringified = Json_text string | No_text | Stringify_throws

definition stored_text :: "stringified \<Rightarrow> string" where
  "stored_text r = (case r of Json_text s \<Rightarrow> s | _ \<Rightarrow> ''undefined'')"

definition setAuth ::
  "((string \<rightharpoonup> string) \<Rightarrow> bool) \<Rightarrow> ('v \<Rightarrow> stringified) \<Rightarrow> string \<Rightarrow> 'v \<Rightarrow> browser
     \<Rightarrow> (js_exception + unit) \<times> browser" where
  "setAuth quota stringify token user st =
     (case setItem quota ''token'' token st of
        (Inl e, st1) \<Rightarrow> (Inl e, st1)
      | (Inr done1, st1) \<Rightarrow>
          (case stringify user of
             Stringify_throws \<Rightarrow> (Inl StringifyError, st1)
           | r \<Rightarrow>
               (case setItem quota ''user'' (stored_text r) st1 of
                  (Inl e, st2) \<Rightarrow> (Inl e, st2)
                | (Inr done2, st2) \<Rightarrow>
                    (Inr (), set_common_header ''Authorization'' (''Bearer '' @ token) st2))))"

definition clearAuth :: "browser \<Rightarrow> browser" where
  "clearAuth st =
     (let st1 = removeItem ''token'' st;
          st2 = removeItem ''user'' st1
      in delete_common_header ''Authorization'' st2)"

text \<open>
  The operations of the module that touch the stored credentials, and a run of any
  sequence of them (the state each leaves, whether it returned or threw). \<open>completes\<close>
  says of an operation that it is not a \<open>setAuth\<close> that throws: \<open>setAuth\<close> is the one
  operation that writes to storage in two steps with a throw possible between them.
  \<open>auth_paired\<close> is the data model's invariant: the token key is present exactly when
  the user key is.
\<close>

datatype 'v client_op =
    SetAuth string 'v
  | ClearAuth
  | IsAuthenticated
  | GetCurrentUser
  | ResponseError axios_error

fun run_op ::
  "((string \<rightharpoonup> string) \<Rightarrow> bool) \<Rightarrow> 'v \<Rightarrow> (string \<Rightarrow> 'v option) \<Rightarrow> ('v \<Rightarrow> stringified)
     \<Rightarrow> 'v client_op \<Rightarrow> browser \<Rightarrow> browser" where
  "run_op quota null parse stringify (SetAuth token user) st =
     snd (setAuth quota stringify token user st)"
| "run_op quota null parse stringify ClearAuth st = clearAuth st"
| "run_op quota null parse stringify IsAuthenticated st = snd (isAuthenticated st)"
| "run_op quota null parse stringify GetCurrentUser st = snd (getCurrentUser null parse st)"
| "run_op quota null parse stringify (ResponseError error) st = snd (response_onRejected error st)"

fun completes ::
  "((string \<rightharpoonup> string) \<Rightarrow> bool) \<Rightarrow> ('v \<Rightarrow> stringified) \<Rightarrow> 'v client_op \<Rightarrow> browser \<Rightarrow> bool" where
  "completes quota stringify (SetAuth token user) st =
     (fst (setAuth quota stringify token user st) = Inr ())"
| "completes quota stringify opn st = True"

fun run_ops ::
  "((string \<rightharpoonup> string) \<Rightarrow> bool) \<Rightarrow> 'v \<Rightarrow> (string \<Rightarrow> 'v option) \<Rightarrow> ('v \<Rightarrow> stringified)
     \<Rightarrow> 'v client_op list \<Rightarrow> browser \<Rightarrow> browser" where
  "run_ops quota null parse stringify [] st = st"
| "run_ops quota null parse stringify (opn # ops) st =
     run_ops quota null parse stringify ops (run_op quota null parse stringify opn st)"

fun all_complete ::
  "((string \<rightharpoonup> string) \<Rightarrow> bool) \<Rightarrow> 'v \<Rightarrow> (string \<Rightarrow> 'v option) \<Rightarrow> ('v \<Rightarrow> stringified)
     \<Rightarrow> 'v client_op list \<Rightarrow> browser \<Rightarrow> bool" where
  "all_complete quota null parse stringify [] st = True"
| "all_complete quota null parse stringify (opn # ops) st =
     (completes quota stringify opn st
      \<and> all_complete quota null parse stringify ops (run_op quota null parse stringify opn st))"

definition auth_paired :: "browser \<Rightarrow> bool" where
  "auth_paired st = ((localStorage st ''token'' = None) = (localStorage st ''user'' = None))"

section \<open>The server's bootstrap\<close>

text \<open>
  The server process of \<^verbatim>\<open>src/unnamed/part_000\<close>: its environment variables, the
  driver's \<^verbatim>\<open>mongoose.connection.readyState\<close> (0 disconnected, 1 connected,
  2 connecting, 3 disconnecting), whether the HTTP server listens, the exit code once
  \<^verbatim>\<open>process.exit\<close> has been called, and the console (message texts, without the
  emoji and the blank lines the source prefixes, and without the values appended).
\<close>

record server =
  env :: "string \<rightharpoonup> string"
  readyState :: nat
  listening :: bool
  exit_code :: "int option"
  console :: "string list"

text \<open>\<^verbatim>\<open>process.env.K || dflt\<close>: an unset or empty variable gives the default.\<close>

definition env_or :: "string \<Rightarrow> string \<Rightarrow> server \<Rightarrow> string" where
  "env_or k dflt st = (case env st k of None \<Rightarrow> dflt | Some v \<Rightarrow> if v = [] then dflt else v)"

definition console_out :: "string list \<Rightarrow> server \<Rightarrow> server" where
  "console_out msgs st = st\<lparr>console := console st @ msgs\<rparr>"

text \<open>
  The database driver is outside the repository. What the bootstrap sees of it:
  \<^verbatim>\<open>await mongoose.connect(uri, options)\<close> either gives the connection (and the
  ready state is 1, connected) or throws an error with a \<^verbatim>\<open>name\<close> (and the ready
  state is 0, disconnected: the state machine of the spec, Connecting to Disconnected on
  timeout or error). Which of the two happens for a URI is the world's answer, the
  parameter \<open>driver\<close>.
\<close>

record mongoose_connection =
  host :: string
  name :: string

datatype connect_outcome = Connects mongoose_connection | Fails string

definition mongoose_connect ::
  "(string \<Rightarrow> connect_outcome) \<Rightarrow> string \<Rightarrow> server \<Rightarrow> (string + mongoose_connection) \<times> server" where
  "mongoose_connect driver uri st =
     (case driver uri of
        Connects c \<Rightarrow> (Inr c, st\<lparr>readyState := 1\<rparr>)
      | Fails error_name \<Rightarrow> (Inl error_name, st\<lparr>readyState := 0\<rparr>))"

text \<open>
  \<^verbatim>\<open>
  const connectDB = async () => {
    try {
      const MONGODB_URI = process.env.MONGODB_URI || 'mongodb://localhost:27017/youth-employment';
      console.log('Attempting MongoDB connection...');
      const conn = await mongoose.connect(MONGODB_URI, {...});
      console.log(`MongoDB Connected: ${conn.connection.host}`);
      console.log(`Database: ${conn.connection.name}`);
      return conn;
    } catch (error) {
      console.error('MongoDB connection error:', error);
      if (error.name === 'MongooseServerSelectionError') { ...six lines of advice... }
      else if (error.name === 'MongoNetworkError') { ...two lines of advice... }
      console.log('Server will start without database connection. Some features may not work.');
      return null;
    }
  };
  \<close>
\<close>

definition mongodb_uri :: "server \<Rightarrow> string" where
  "mongodb_uri st = env_or ''MONGODB_URI'' ''mongodb://localhost:27017/youth-employment'' st"

definition connectDB ::
  "(string \<Rightarrow> connect_outcome) \<Rightarrow> server \<Rightarrow> mongoose_connection option \<times> server" where
  "connectDB driver st =
     (let uri = mongodb_uri st;
          st1 = console_out [''Attempting MongoDB connection...''] st
      in case mongoose_connect driver uri st1 of
           (Inr conn, st2) \<Rightarrow>
             (Some conn,
              console_out [''MongoDB Connected: '' @ host conn, ''Database: '' @ name conn] st2)
         | (Inl error_name, st2) \<Rightarrow>
             (let st3 = console_out [''MongoDB connection error:''] st2;
                  st4 = (if error_name = ''MongooseServerSelectionError'' then
                           console_out
                             [''IP WHITELIST SOLUTION:'',
                              ''   1. Go to MongoDB Atlas Dashboard'',
                              ''   2. Navigate to Network Access'',
                              ''   3. Add IP Address: 0.0.0.0/0'',
                              ''   4. Or add Render-specific IP ranges'',
                              ''   https://cloud.mongodb.com/v2/#/security/network/''] st3
                         else if error_name = ''MongoNetworkError'' then
                           console_out
                             [''NETWORK SOLUTION:'',
                              ''   Check your MongoDB connection string and network settings''] st3
                         else st3)
              in (None,
                  console_out
                    [''Server will start without database connection. Some features may not work.'']
                    st4)))"

text \<open>
  \<^verbatim>\<open>
  const startServer = async () => {
    await connectDB();
    app.listen(PORT, () => {
      console.log(`Server running on port ${PORT}`);
      ...
      if (mongoose.connection.readyState !== 1) {
        console.log('WARNING: Database is not connected. Some features will not work.');
        console.log('   Please check MongoDB Atlas IP whitelist settings.');
      }
    });
  };
  startServer().catch(error => {
    console.error('Failed to start server:', error);
    process.exit(1);
  });
  \<close>
  \<^verbatim>\<open>app.listen\<close> either starts listening and runs its callback or throws (a port
  out of range, thrown as \<open>Inl\<close>); which, is the parameter of type \<open>listen_outcome\<close>.
  The \<^verbatim>\<open>catch\<close> at the call of \<open>startServer\<close> is \<open>bootstrap\<close>.
\<close>

datatype listen_outcome = Listens | ListenThrows

definition app_listen :: "listen_outcome \<Rightarrow> server \<Rightarrow> (unit + unit) \<times> server" where
  "app_listen outcome st =
     (case outcome of
        ListenThrows \<Rightarrow> (Inl (), st)
      | Listens \<Rightarrow>
          (let st1 = st\<lparr>listening := True\<rparr>;
               st2 = console_out
                       [''Server running on port '' @ env_or ''PORT'' ''5000'' st1,
                        ''Environment: '' @ env_or ''NODE_ENV'' ''development'' st1,
                        ''CORS enabled for:'',
                        ''   - http://localhost:3000'',
                        ''   - http://localhost:5173'',
                        ''   - https://mern-final-project-atsienoclaire.vercel.app'',
                        ''   - https://mern-final-project-atsienoclaire-2.onrender.com'',
                        ''Health check: https://mern-final-project-atsienoclaire-2.onrender.com/api/health'',
                        ''API status: https://mern-final-project-atsienoclaire-2.onrender.com/api''] st1
           in (Inr (),
               if readyState st2 \<noteq> 1 then
                 console_out
                   [''WARNING: Database is not connected. Some features will not work.'',
                    ''   Please check MongoDB Atlas IP whitelist settings.''] st2
               else st2)))"

definition startServer ::
  "(string \<Rightarrow> connect_outcome) \<Rightarrow> listen_outcome \<Rightarrow> server \<Rightarrow> (unit + unit) \<times> server" where
  "startServer driver outcome st = (let (conn, st1) = connectDB driver st in app_listen outcome st1)"

definition bootstrap :: "(string \<Rightarrow> connect_outcome) \<Rightarrow> listen_outcome \<Rightarrow> server \<Rightarrow> server" where
  "bootstrap driver outcome st =
     (case startServer driver outcome st of
        (Inr u, st1) \<Rightarrow> st1
      | (Inl e, st1) \<Rightarrow> (console_out [''Failed to start server:''] st1)\<lparr>exit_code := Some 1\<rparr>)"

text \<open>
  The two routes the file serves itself. \<open>now\<close> is the clock's
  \<^verbatim>\<open>new Date().toISOString()\<close> at the request. A process that has exited or does
  not listen answers nothing; every other path goes to the routers mounted before.
  \<^verbatim>\<open>
  app.get('/api/health', (req, res) => {
    res.status(200).json({
      status: 'OK',
      message: 'Server is running',
      timestamp: new Date().toISOString(),
      environment: process.env.NODE_ENV || 'development',
      database: mongoose.connection.readyState === 1 ? 'Connected' : 'Disconnected'
    });
  });
  \<close>
\<close>

definition database_state :: "server \<Rightarrow> string" where
  "database_state st = (if readyState st = 1 then ''Connected'' else ''Disconnected'')"

definition api_status :: "string \<Rightarrow> server \<Rightarrow> nat \<times> (string \<times> jsval) list" where
  "api_status now st =
     (200,
      [(''message'', JStr ''Youth Employment Platform API''),
       (''timestamp'', JStr now),
       (''environment'', JStr (env_or ''NODE_ENV'' ''development'' st)),
       (''database'', JStr (database_state st))])"

definition api_health :: "string \<Rightarrow> server \<Rightarrow> nat \<times> (string \<times> jsval) list" where
  "api_health now st =
     (200,
      [(''status'', JStr ''OK''),
       (''message'', JStr ''Server is running''),
       (''timestamp'', JStr now),
       (''environment'', JStr (env_or ''NODE_ENV'' ''development'' st)),
       (''database'', JStr (database_state st))])"

datatype http_reply = NoAnswer | Routed | Reply nat "(string \<times> jsval) list"

definition http_get :: "string \<Rightarrow> string \<Rightarrow> server \<Rightarrow> http_reply" where
  "http_get path now st =
     (if exit_code st \<noteq> None \<or> \<not> listening st then NoAnswer
      else if path = ''/api'' then (case api_status now st of (code, body) \<Rightarrow> Reply code body)
      else if path = ''/api/health'' then (case api_health now st of (code, body) \<Rightarrow> Reply code body)
      else Routed)"

text \<open>
  \<^verbatim>\<open>src/backend/server.js\<close> is another bootstrap of the same server, without
  \<open>connectDB\<close>: it starts the connection, listens at once, and exits with code 1 when the
  connection fails; its health route has no database field.
  \<^verbatim>\<open>
  mongoose.connect(MONGODB_URI)
    .then(() => console.log('MongoDB connected successfully'))
    .catch(err => {
      console.error('MongoDB connection error:', err);
      process.exit(1);
    });
  const PORT = process.env.PORT || 5000;
  app.listen(PORT, () => { console.log(`Server running on port ${PORT}`); ... });
  \<close>
\<close>

definition backend_server_js :: "(string \<Rightarrow> connect_outcome) \<Rightarrow> server \<Rightarrow> server" where
  "backend_server_js driver st =
     (let st1 = console_out
                  [''Server running on port '' @ env_or ''PORT'' ''5000'' st,
                   ''Environment: '' @ env_or ''NODE_ENV'' ''development'' st,
                   ''CORS enabled for:'',
                   ''   - http://localhost:3000'',
                   ''   - http://localhost:5173'',
                   ''   - https://mern-final-project-atsienoclaire.vercel.app/'',
                   ''   - https://mern-final-project-atsienoclaire-2.onrender.com'']
                  (st\<lparr>listening := True\<rparr>)
      in case mongoose_connect driver (mongodb_uri st1) st1 of
           (Inr conn, st2) \<Rightarrow> console_out [''MongoDB connected successfully''] st2
         | (Inl error_name, st2) \<Rightarrow>
             (console_out [''MongoDB connection error:''] st2)\<lparr>exit_code := Some 1\<rparr>)"

text \<open>
  The health route of \<^verbatim>\<open>src/backend/server.js\<close>:
  \<^verbatim>\<open>
  app.get('/api/health', (req, res) => {
    res.status(200).json({
      status: 'OK',
      message: 'Server is running',
      timestamp: new Date().toISOString(),
      environment: process.env.NODE_ENV || 'development'
    });
  });
  \<close>
\<close>

definition backend_api_health :: "string \<Rightarrow> server \<Rightarrow> nat \<times> (string \<times> jsval) list" where
  "backend_api_health now st =
     (200,
      [(''status'', JStr ''OK''),
       (''message'', JStr ''Server is running''),
       (''timestamp'', JStr now),
       (''environment'', JStr (env_or ''NODE_ENV'' ''development'' st))])"

definition backend_api_status :: "string \<Rightarrow> server \<Rightarrow> nat \<times> (string \<times> jsval) list" where
  "backend_api_status now st =
     (200,
      [(''message'', JStr ''Youth Employment Platform API''),
       (''timestamp'', JStr now),
       (''environment'', JStr (env_or ''NODE_ENV'' ''development'' st))])"

definition backend_http_get :: "string \<Rightarrow> string \<Rightarrow> server \<Rightarrow> http_reply" where
  "backend_http_get path now st =
     (if exit_code st = None \<and> listening st then
        (if path = ''/api'' then
           (case backend_api_status now st of (code, body) \<Rightarrow> Reply code body)
         else if path = ''/api/health'' then
           (case backend_api_health now st of (code, body) \<Rightarrow> Reply code body)
         else Routed)
      else NoAnswer)"

section \<open>The runtime's JSON.stringify\<close>

text \<open>
  \<^verbatim>\<open>JSON.stringify\<close> on the values above, after the language standard, for the
  examples that run \<open>setAuth\<close>. \<^verbatim>\<open>undefined\<close> has no JSON text: a property holding
  it is left out of an object, an element holding it is written \<^verbatim>\<open>null\<close>, and
  alone it gives \<^verbatim>\<open>undefined\<close>. \<^verbatim>\<open>NaN\<close> and the infinities are written
  \<^verbatim>\<open>null\<close>, the negative zero \<^verbatim>\<open>0\<close>; the text of any other number is the
  runtime's number formatting, the parameter \<open>number_text\<close>. A big integer makes the call
  throw, wherever it stands. Strings are quoted with the standard's escapes.
\<close>

definition quote_char :: "char \<Rightarrow> string" where
  "quote_char c =
     (if c = CHR 0x22 then [CHR 0x5C, CHR 0x22]
      else if c = CHR 0x5C then [CHR 0x5C, CHR 0x5C]
      else if c = CHR 0x08 then [CHR 0x5C, CHR ''b'']
      else if c = CHR 0x0C then [CHR 0x5C, CHR ''f'']
      else if c = CHR 0x0A then [CHR 0x5C, CHR ''n'']
      else if c = CHR 0x0D then [CHR 0x5C, CHR ''r'']
      else if c = CHR 0x09 then [CHR 0x5C, CHR ''t'']
      else if (of_char c :: nat) < 32 then
        [CHR 0x5C, CHR ''u'', CHR ''0'', CHR ''0'',
         ''0123456789abcdef'' ! (of_char c div 16), ''0123456789abcdef'' ! (of_char c mod 16)]
      else [c])"

definition quote_json :: "string \<Rightarrow> string" where
  "quote_json s = CHR 0x22 # concat (map quote_char s) @ [CHR 0x22]"

fun join_commas :: "string list \<Rightarrow> string" where
  "join_commas [] = []"
| "join_commas [x] = x"
| "join_commas (x # y # ys) = x @ CHR '','' # join_commas (y # ys)"

definition element_text :: "stringified \<Rightarrow> string" where
  "element_text r = (case r of Json_text s \<Rightarrow> s | _ \<Rightarrow> ''null'')"

definition member_text :: "string \<times> stringified \<Rightarrow> string option" where
  "member_text kr =
     (case snd kr of Json_text s \<Rightarrow> Some (quote_json (fst kr) @ CHR '':'' # s) | _ \<Rightarrow> None)"

definition number_json :: "(rat \<Rightarrow> string) \<Rightarrow> jsnum \<Rightarrow> string" where
  "number_json number_text n =
     (case n of Finite r \<Rightarrow> number_text r | NegZero \<Rightarrow> ''0'' | _ \<Rightarrow> ''null'')"

primrec JSON_stringify :: "(rat \<Rightarrow> string) \<Rightarrow> jsval \<Rightarrow> stringified" where
  "JSON_stringify number_text JUndefined = No_text"
| "JSON_stringify number_text JNull = Json_text ''null''"
| "JSON_stringify number_text (JBool b) = Json_text (if b then ''true'' else ''false'')"
| "JSON_stringify number_text (JNum n) = Json_text (number_json number_text n)"
| "JSON_stringify number_text (JBigInt i) = Stringify_throws"
| "JSON_stringify number_text (JStr s) = Json_text (quote_json s)"
| "JSON_stringify number_text (JArr vs) =
     (let rs = map (JSON_stringify number_text) vs in
      if Stringify_throws \<in> set rs then Stringify_throws
      else Json_text (CHR ''['' # join_commas (map element_text rs) @ '']''))"
| "JSON_stringify number_text (JObj kvs) =
     (let krs = map (map_prod id (JSON_stringify number_text)) kvs in
      if Stringify_throws \<in> set (map snd krs) then Stringify_throws
      else Json_text (CHR ''{'' # join_commas (List.map_filter member_text krs) @ ''}''))"

section \<open>Printing small numbers\<close>

lemma show_nat_small: "n < 10 \<Longrightarrow> show_nat n = [''0123456789'' ! n]"
  by (subst show_nat.simps) simp

section \<open>Properties of the retry helper\<close>

lemma show_int_2: "show_int 2 = ''2''"
  by (simp add: show_int_def show_nat_small)

lemma show_int_3: "show_int 3 = ''3''"
  by (simp add: show_int_def show_nat_small)

lemma invocations_append: "invocations (xs @ ys) = invocations xs + invocations ys"
  by (induction xs rule: invocations.induct) simp_all

lemma timeouts_append: "timeouts (xs @ ys) = timeouts xs @ timeouts ys"
  by (induction xs rule: timeouts.induct) simp_all

lemma emit_emit: "emit ys (emit xs w) = emit (xs @ ys) w"
  by (simp add: emit_def)

lemma effects_emit: "effects (emit es w) = effects w @ es"
  by (simp add: emit_def)

lemma op_state_emit: "op_state (emit es w) = op_state w"
  by (simp add: emit_def)

lemma emit_op_state_update: "emit es w\<lparr>op_state := s\<rparr> = emit es (w\<lparr>op_state := s\<rparr>)"
  by (simp add: emit_def)

text \<open>One failed attempt that is not the last: the loop waits and goes round again.\<close>

lemma loop_retry:
  assumes "of_int attempt < maxRetries" and "apiCall (op_state w) = (Inl e, s')"
  shows "apiWithRetry_loop apiCall maxRetries delay attempt w =
         apiWithRetry_loop apiCall maxRetries delay (attempt + 1)
           (emit [Invoke, SetTimeout (delay * of_int attempt),
                  ConsoleLog (''Retrying API call (attempt '' @ show_int (attempt + 1) @ '')...'')]
              (w\<lparr>op_state := s'\<rparr>))"
  using assms by (subst apiWithRetry_loop.simps) simp

lemma loop_success:
  assumes "of_int attempt \<le> maxRetries" and "apiCall (op_state w) = (Inr v, s')"
  shows "apiWithRetry_loop apiCall maxRetries delay attempt w =
         (Resolved v, emit [Invoke] (w\<lparr>op_state := s'\<rparr>))"
  using assms by (subst apiWithRetry_loop.simps) simp

lemma loop_last_failure:
  assumes "of_int attempt = maxRetries" and "apiCall (op_state w) = (Inl e, s')"
  shows "apiWithRetry_loop apiCall maxRetries delay attempt w =
         (Rejected e, emit [Invoke] (w\<lparr>op_state := s'\<rparr>))"
  using assms by (subst apiWithRetry_loop.simps) simp

lemma loop_exhausted:
  assumes "maxRetries < of_int attempt"
  shows "apiWithRetry_loop apiCall maxRetries delay attempt w = (ResolvedUndefined, w)"
  using assms by (subst apiWithRetry_loop.simps) simp

text \<open>
  C2. An operation that fails on its first two invocations and succeeds on its third:
  \<open>apiWithRetry op 3 100\<close> resolves with the value of the third invocation, invokes the
  operation exactly three times (the effects added are exactly the seven listed, and the
  operation is left in the state after its third invocation), and waits twice, 100 ms and
  then 200 ms. The delay is linear in the attempt number: for every base delay \<open>d\<close> the
  two waits are \<open>d * 1\<close> and \<open>d * 2\<close>.
\<close>

theorem apiWithRetry_two_failures_then_success:
  assumes "apiCall (op_state w) = (Inl e1, s1)"
      and "apiCall s1 = (Inl e2, s2)"
      and "apiCall s2 = (Inr v, s3)"
  shows "apiWithRetry apiCall (Some 3) (Some 100) w =
           (Resolved v,
            emit [Invoke, SetTimeout 100, ConsoleLog ''Retrying API call (attempt 2)...'',
                  Invoke, SetTimeout 200, ConsoleLog ''Retrying API call (attempt 3)...'',
                  Invoke] (w\<lparr>op_state := s3\<rparr>))
         \<and> invocations (effects (snd (apiWithRetry apiCall (Some 3) (Some 100) w)))
             = invocations (effects w) + 3
         \<and> timeouts (effects (snd (apiWithRetry apiCall (Some 3) (Some 100) w)))
             = timeouts (effects w) @ [100, 200]
         \<and> (\<forall>d. timeouts (effects (snd (apiWithRetry apiCall (Some 3) (Some d) w)))
             = timeouts (effects w) @ [d * 1, d * 2])"
proof -
  have run: "apiWithRetry apiCall (Some 3) (Some d) w =
           (Resolved v,
            emit [Invoke, SetTimeout (d * 1), ConsoleLog ''Retrying API call (attempt 2)...'',
                  Invoke, SetTimeout (d * 2), ConsoleLog ''Retrying API call (attempt 3)...'',
                  Invoke] (w\<lparr>op_state := s3\<rparr>))" for d
  proof -
    let ?w1 = "emit [Invoke, SetTimeout (d * of_int 1),
                  ConsoleLog (''Retrying API call (attempt '' @ show_int (1 + 1) @ '')...'')]
                 (w\<lparr>op_state := s1\<rparr>)"
    let ?w2 = "emit [Invoke, SetTimeout (d * of_int 2),
                  ConsoleLog (''Retrying API call (attempt '' @ show_int (2 + 1) @ '')...'')]
                 (?w1\<lparr>op_state := s2\<rparr>)"
    have "apiWithRetry apiCall (Some 3) (Some d) w = apiWithRetry_loop apiCall 3 d 1 w"
      by (simp add: apiWithRetry_def)
    also have "\<dots> = apiWithRetry_loop apiCall 3 d 2 ?w1"
      using loop_retry [of 1 3 apiCall w e1 s1 d] assms(1) by simp
    also have "\<dots> = apiWithRetry_loop apiCall 3 d 3 ?w2"
      using loop_retry [of 2 3 apiCall ?w1 e2 s2 d] assms(2) by (simp add: op_state_emit)
    also have "\<dots> = (Resolved v, emit [Invoke] (?w2\<lparr>op_state := s3\<rparr>))"
      using loop_success [of 3 3 apiCall ?w2 v s3 d] assms(3) by (simp add: op_state_emit)
    finally show ?thesis
      by (simp add: emit_def show_int_2 show_int_3)
  qed
  show ?thesis
    by (simp add: run effects_emit invocations_append timeouts_append)
qed

text \<open>
  An instance: the operation keeps a counter of its invocations, fails while the counter
  is below 2 and succeeds afterwards.
\<close>

theorem apiWithRetry_two_failures_then_success_witness:
  "apiWithRetry (\<lambda>n::nat. (if n < 2 then Inl (''error '' @ show_nat n) else Inr ''payload'', n + 1))
       (Some 3) (Some 100) \<lparr>effects = [], op_state = 0\<rparr> =
     (Resolved ''payload'',
      \<lparr>effects = [Invoke, SetTimeout 100, ConsoleLog ''Retrying API call (attempt 2)...'',
                  Invoke, SetTimeout 200, ConsoleLog ''Retrying API call (attempt 3)...'',
                  Invoke],
       op_state = 3\<rparr>)"
  using apiWithRetry_two_failures_then_success
    [of "\<lambda>n::nat. (if n < 2 then Inl (''error '' @ show_nat n) else Inr ''payload'', n + 1)"
        "\<lparr>effects = [], op_state = 0\<rparr>" "''error 0''" 1 "''error 1''" 2 "''payload''" 3]
  by (simp add: emit_def show_nat_small)

text \<open>
  C3. An operation that fails on every invocation, so in particular on its first three:
  \<open>apiWithRetry op 3 100\<close> rejects with the error of the third invocation (\<open>e3\<close>,
  not \<open>e1\<close> or \<open>e2\<close>), and the operation is invoked exactly three times: the effects
  added hold three invocations and the operation is left in the state after its third one.
\<close>

theorem apiWithRetry_always_failing:
  assumes "apiCall (op_state w) = (Inl e1, s1)"
      and "apiCall s1 = (Inl e2, s2)"
      and "apiCall s2 = (Inl e3, s3)"
  shows "apiWithRetry apiCall (Some 3) (Some 100) w =
           (Rejected e3,
            emit [Invoke, SetTimeout 100, ConsoleLog ''Retrying API call (attempt 2)...'',
                  Invoke, SetTimeout 200, ConsoleLog ''Retrying API call (attempt 3)...'',
                  Invoke] (w\<lparr>op_state := s3\<rparr>))
         \<and> invocations (effects (snd (apiWithRetry apiCall (Some 3) (Some 100) w)))
             = invocations (effects w) + 3"
proof -
  let ?w1 = "emit [Invoke, SetTimeout (100 * of_int 1),
                ConsoleLog (''Retrying API call (attempt '' @ show_int (1 + 1) @ '')...'')]
               (w\<lparr>op_state := s1\<rparr>)"
  let ?w2 = "emit [Invoke, SetTimeout (100 * of_int 2),
                ConsoleLog (''Retrying API call (attempt '' @ show_int (2 + 1) @ '')...'')]
               (?w1\<lparr>op_state := s2\<rparr>)"
  have "apiWithRetry apiCall (Some 3) (Some 100) w = apiWithRetry_loop apiCall 3 100 1 w"
    by (simp add: apiWithRetry_def)
  also have "\<dots> = apiWithRetry_loop apiCall 3 100 2 ?w1"
    using loop_retry [of 1 3 apiCall w e1 s1 100] assms(1) by simp
  also have "\<dots> = apiWithRetry_loop apiCall 3 100 3 ?w2"
    using loop_retry [of 2 3 apiCall ?w1 e2 s2 100] assms(2) by (simp add: op_state_emit)
  also have "\<dots> = (Rejected e3, emit [Invoke] (?w2\<lparr>op_state := s3\<rparr>))"
    using loop_last_failure [of 3 3 apiCall ?w2 e3 s3 100] assms(3) by (simp add: op_state_emit)
  finally have run: "apiWithRetry apiCall (Some 3) (Some 100) w =
           (Rejected e3,
            emit [Invoke, SetTimeout 100, ConsoleLog ''Retrying API call (attempt 2)...'',
                  Invoke, SetTimeout 200, ConsoleLog ''Retrying API call (attempt 3)...'',
                  Invoke] (w\<lparr>op_state := s3\<rparr>))"
    by (simp add: emit_def show_int_2 show_int_3)
  show ?thesis
    by (simp add: run effects_emit invocations_append)
qed

text \<open>
  An instance: the operation always fails, with an error that carries the number of the
  invocation (from 0); the rejection carries the third one's.
\<close>

theorem apiWithRetry_always_failing_witness:
  "apiWithRetry (\<lambda>n::nat. (Inl (''error '' @ show_nat n) :: string + unit, n + 1))
       (Some 3) (Some 100) \<lparr>effects = [], op_state = 0\<rparr> =
     (Rejected ''error 2'',
      \<lparr>effects = [Invoke, SetTimeout 100, ConsoleLog ''Retrying API call (attempt 2)...'',
                  Invoke, SetTimeout 200, ConsoleLog ''Retrying API call (attempt 3)...'',
                  Invoke],
       op_state = 3\<rparr>)"
  using apiWithRetry_always_failing
    [of "\<lambda>n::nat. (Inl (''error '' @ show_nat n) :: string + unit, n + 1)"
        "\<lparr>effects = [], op_state = 0\<rparr>" "''error 0''" 1 "''error 1''" 2 "''error 2''" 3]
  by (simp add: emit_def show_nat_small)

text \<open>
  C10. With \<open>maxRetries\<close> below 1 (0, a negative number, a fraction such as 1/2) the
  loop body never runs: the promise resolves with \<^verbatim>\<open>undefined\<close>, the operation is
  never invoked and nothing else happens (the world is unchanged).
\<close>

theorem apiWithRetry_no_attempts:
  assumes "maxRetries < 1"
  shows "apiWithRetry apiCall (Some maxRetries) delay w = (ResolvedUndefined, w)"
  using assms by (simp add: apiWithRetry_def loop_exhausted)

theorem apiWithRetry_no_attempts_witness:
  "apiWithRetry (\<lambda>n::nat. (Inr ''payload'' :: string + string, n + 1)) (Some 0) (Some 100)
       \<lparr>effects = [], op_state = 0\<rparr> = (ResolvedUndefined, \<lparr>effects = [], op_state = 0\<rparr>)
   \<and> apiWithRetry (\<lambda>n::nat. (Inr ''payload'' :: string + string, n + 1)) (Some (1 / 2)) None
       \<lparr>effects = [], op_state = 0\<rparr> = (ResolvedUndefined, \<lparr>effects = [], op_state = 0\<rparr>)
   \<and> apiWithRetry (\<lambda>n::nat. (Inr ''payload'' :: string + string, n + 1)) (Some (- 2)) None
       \<lparr>effects = [], op_state = 0\<rparr> = (ResolvedUndefined, \<lparr>effects = [], op_state = 0\<rparr>)"
  using apiWithRetry_no_attempts
    [of 0 "\<lambda>n::nat. (Inr ''payload'' :: string + string, n + 1)" "Some 100" "\<lparr>effects = [], op_state = 0\<rparr>"]
    apiWithRetry_no_attempts
    [of "1 / 2" "\<lambda>n::nat. (Inr ''payload'' :: string + string, n + 1)" None "\<lparr>effects = [], op_state = 0\<rparr>"]
    apiWithRetry_no_attempts
    [of "- 2" "\<lambda>n::nat. (Inr ''payload'' :: string + string, n + 1)" None "\<lparr>effects = [], op_state = 0\<rparr>"]
  by simp

section \<open>Properties of the response interceptor\<close>

lemma includes_str_sublist: "includes_str s sub = sublist sub s"
  by (induction s) (auto simp: sublist_Cons_right)

lemma navigations_append: "navigations (xs @ ys) = navigations xs @ navigations ys"
  by (induction xs rule: navigations.induct) simp_all

lemma localStorage_emit: "localStorage (emit es st) = localStorage st"
  by (simp add: emit_def)

lemma common_headers_emit: "common_headers (emit es st) = common_headers st"
  by (simp add: emit_def)

lemma pathname_emit: "pathname (emit es st) = pathname st"
  by (simp add: emit_def)

lemma on_unauthorized_eq:
  "on_unauthorized st =
     emit ([RemoveItem ''token'', RemoveItem ''user'', DeleteHeader ''Authorization'']
             @ (if includes_str (pathname st) ''/login'' then [] else [Navigate ''/login'']))
       (st\<lparr>localStorage := (localStorage st)(''token'' := None, ''user'' := None),
           common_headers := (common_headers st)(''Authorization'' := None)\<rparr>)"
  by (simp add: on_unauthorized_def removeItem_def delete_common_header_def
      set_location_href_def emit_def Let_def)

text \<open>
  C4. A failed response with status 401: the handler removes the token entry and the user
  entry from local storage and the default Authorization header, each exactly once (the
  effects added are exactly the ones listed), and assigns \<^verbatim>\<open>/login\<close> to the
  location exactly once if the current path does not contain \<^verbatim>\<open>/login\<close>, and
  not at all if it does. Afterwards neither entry nor the header is present, and the
  error handed in is the one re-raised.
\<close>

theorem unauthorized_clears_and_redirects:
  assumes "response error = Some resp" and "status resp = 401"
  shows "fst (response_onRejected error st) = Original error
       \<and> effects (snd (response_onRejected error st)) =
           effects st @ [ConsoleError ''API Error:'', RemoveItem ''token'', RemoveItem ''user'',
                         DeleteHeader ''Authorization'']
             @ (if includes_str (pathname st) ''/login'' then [] else [Navigate ''/login''])
       \<and> navigations (effects (snd (response_onRejected error st))) =
           navigations (effects st)
             @ (if includes_str (pathname st) ''/login'' then [] else [''/login''])
       \<and> localStorage (snd (response_onRejected error st)) ''token'' = None
       \<and> localStorage (snd (response_onRejected error st)) ''user'' = None
       \<and> common_headers (snd (response_onRejected error st)) ''Authorization'' = None"
  using assms
  by (simp add: response_onRejected_def Let_def on_unauthorized_eq console_error_def
      effects_emit pathname_emit localStorage_emit common_headers_emit navigations_append)

text \<open>
  Two runs: on \<^verbatim>\<open>/dashboard\<close> with stored credentials (one navigation), and on
  \<^verbatim>\<open>/login\<close> itself (none).
\<close>

theorem unauthorized_clears_and_redirects_witness:
  "effects (snd (response_onRejected
       \<lparr>config = Some \<lparr>url = ''/jobs'', http_method = ''get''\<rparr>,
        response = Some \<lparr>status = 401, data = JNull\<rparr>, request = True,
        message = ''Request failed with status code 401''\<rparr>
       \<lparr>effects = [], localStorage = [''token'' \<mapsto> ''abc'', ''user'' \<mapsto> ''{}''],
        common_headers = [''Authorization'' \<mapsto> ''Bearer abc''], pathname = ''/dashboard''\<rparr>))
     = [ConsoleError ''API Error:'', RemoveItem ''token'', RemoveItem ''user'',
        DeleteHeader ''Authorization'', Navigate ''/login'']
   \<and> effects (snd (response_onRejected
       \<lparr>config = Some \<lparr>url = ''/auth/login'', http_method = ''post''\<rparr>,
        response = Some \<lparr>status = 401, data = JNull\<rparr>, request = True,
        message = ''Request failed with status code 401''\<rparr>
       \<lparr>effects = [], localStorage = Map.empty,
        common_headers = Map.empty, pathname = ''/login''\<rparr>))
     = [ConsoleError ''API Error:'', RemoveItem ''token'', RemoveItem ''user'',
        DeleteHeader ''Authorization'']"
  using unauthorized_clears_and_redirects
    [of "\<lparr>config = Some \<lparr>url = ''/jobs'', http_method = ''get''\<rparr>,
        response = Some \<lparr>status = 401, data = JNull\<rparr>, request = True,
        message = ''Request failed with status code 401''\<rparr>"
        "\<lparr>status = 401, data = JNull\<rparr>"
        "\<lparr>effects = [], localStorage = [''token'' \<mapsto> ''abc'', ''user'' \<mapsto> ''{}''],
        common_headers = [''Authorization'' \<mapsto> ''Bearer abc''], pathname = ''/dashboard''\<rparr>"]
    unauthorized_clears_and_redirects
    [of "\<lparr>config = Some \<lparr>url = ''/auth/login'', http_method = ''post''\<rparr>,
        response = Some \<lparr>status = 401, data = JNull\<rparr>, request = True,
        message = ''Request failed with status code 401''\<rparr>"
        "\<lparr>status = 401, data = JNull\<rparr>"
        "\<lparr>effects = [], localStorage = Map.empty,
        common_headers = Map.empty, pathname = ''/login''\<rparr>"]
  by simp

lemma response_onRejected_effects:
  "\<exists>logged. effects (snd (response_onRejected error st)) =
             effects st @ ConsoleError ''API Error:'' # logged"
  by (auto simp: response_onRejected_def Let_def on_unauthorized_eq console_error_def
      effects_emit split: option.splits)

text \<open>
  C5. The handler re-raises the error it was given, unchanged, after its logging and side
  effects, for each of the three shapes it distinguishes: the server answered with an
  error status, the request was sent and nothing came back, the request could not be set
  up. An error with a response carries the configuration of its request, as every error
  axios makes for a response does; an error without a response may carry one or not.
\<close>

theorem response_onRejected_reraises:
  assumes "response error \<noteq> None \<longrightarrow> config error \<noteq> None"
  shows "fst (response_onRejected error st) = Original error
       \<and> (\<exists>logged. effects (snd (response_onRejected error st)) =
                      effects st @ ConsoleError ''API Error:'' # logged)"
proof -
  have "fst (response_onRejected error st) = Original error"
    using assms
    by (auto simp: response_onRejected_def Let_def split: option.splits)
  then show ?thesis
    using response_onRejected_effects [of error st] by simp
qed

text \<open>
  One run for each shape: a 404 and a 503 from the server, a request without an answer, and
  a request that was never sent and has no configuration.
\<close>

theorem response_onRejected_reraises_witness:
  "fst (response_onRejected
       \<lparr>config = Some \<lparr>url = ''/jobs/7'', http_method = ''get''\<rparr>,
        response = Some \<lparr>status = 404, data = JNull\<rparr>, request = True,
        message = ''Request failed with status code 404''\<rparr>
       \<lparr>effects = [], localStorage = Map.empty, common_headers = Map.empty,
        pathname = ''/jobs''\<rparr>)
   = Original \<lparr>config = Some \<lparr>url = ''/jobs/7'', http_method = ''get''\<rparr>,
        response = Some \<lparr>status = 404, data = JNull\<rparr>, request = True,
        message = ''Request failed with status code 404''\<rparr>
   \<and> fst (response_onRejected
       \<lparr>config = Some \<lparr>url = ''/jobs'', http_method = ''post''\<rparr>,
        response = Some \<lparr>status = 503, data = JNull\<rparr>, request = True,
        message = ''Request failed with status code 503''\<rparr>
       \<lparr>effects = [], localStorage = Map.empty, common_headers = Map.empty,
        pathname = ''/jobs''\<rparr>)
   = Original \<lparr>config = Some \<lparr>url = ''/jobs'', http_method = ''post''\<rparr>,
        response = Some \<lparr>status = 503, data = JNull\<rparr>, request = True,
        message = ''Request failed with status code 503''\<rparr>
   \<and> fst (response_onRejected
       \<lparr>config = Some \<lparr>url = ''/jobs'', http_method = ''get''\<rparr>,
        response = None, request = True, message = ''Network Error''\<rparr>
       \<lparr>effects = [], localStorage = Map.empty, common_headers = Map.empty,
        pathname = ''/jobs''\<rparr>)
   = Original \<lparr>config = Some \<lparr>url = ''/jobs'', http_method = ''get''\<rparr>,
        response = None, request = True, message = ''Network Error''\<rparr>
   \<and> fst (response_onRejected
       \<lparr>config = None, response = None, request = False, message = ''Invalid URL''\<rparr>
       \<lparr>effects = [], localStorage = Map.empty, common_headers = Map.empty,
        pathname = ''/jobs''\<rparr>)
   = Original \<lparr>config = None, response = None, request = False, message = ''Invalid URL''\<rparr>"
  using response_onRejected_reraises
    [of "\<lparr>config = Some \<lparr>url = ''/jobs/7'', http_method = ''get''\<rparr>,
        response = Some \<lparr>status = 404, data = JNull\<rparr>, request = True,
        message = ''Request failed with status code 404''\<rparr>"
        "\<lparr>effects = [], localStorage = Map.empty, common_headers = Map.empty,
        pathname = ''/jobs''\<rparr>"]
    response_onRejected_reraises
    [of "\<lparr>config = Some \<lparr>url = ''/jobs'', http_method = ''post''\<rparr>,
        response = Some \<lparr>status = 503, data = JNull\<rparr>, request = True,
        message = ''Request failed with status code 503''\<rparr>"
        "\<lparr>effects = [], localStorage = Map.empty, common_headers = Map.empty,
        pathname = ''/jobs''\<rparr>"]
    response_onRejected_reraises
    [of "\<lparr>config = Some \<lparr>url = ''/jobs'', http_method = ''get''\<rparr>,
        response = None, request = True, message = ''Network Error''\<rparr>"
        "\<lparr>effects = [], localStorage = Map.empty, common_headers = Map.empty,
        pathname = ''/jobs''\<rparr>"]
    response_onRejected_reraises
    [of "\<lparr>config = None, response = None, request = False, message = ''Invalid URL''\<rparr>"
        "\<lparr>effects = [], localStorage = Map.empty, common_headers = Map.empty,
        pathname = ''/jobs''\<rparr>"]
  by simp

text \<open>
  The hypothesis is used by the 404 branch alone, which logs the request's URL: handed an
  error with a 404 response and no configuration, as no request through axios produces,
  the handler rejects with the \<^verbatim>\<open>TypeError\<close> of that read.
\<close>

lemma not_found_without_config:
  "fst (response_onRejected
       \<lparr>config = None, response = Some \<lparr>status = 404, data = JNull\<rparr>, request = True,
        message = ''Request failed with status code 404''\<rparr>
       \<lparr>effects = [], localStorage = Map.empty, common_headers = Map.empty,
        pathname = ''/jobs''\<rparr>) = TypeError"
  by (simp add: response_onRejected_def)

section \<open>Properties of the auth-state helpers\<close>

text \<open>
  C6, as the code has it. \<open>isAuthenticated\<close> is true exactly when a token is stored and
  is not the empty string: \<^verbatim>\<open>!!token\<close> is false for the empty string as it is for
  \<^verbatim>\<open>null\<close>. It reads local storage once and does nothing else: no network call,
  no write.
\<close>

theorem isAuthenticated_iff_nonempty_token:
  "fst (isAuthenticated st) = (\<exists>t. localStorage st ''token'' = Some t \<and> t \<noteq> [])
   \<and> snd (isAuthenticated st) = emit [GetItem ''token''] st"
  by (simp add: isAuthenticated_def getItem_def split: option.splits)

text \<open>
  The specification's sentence (false if and only if no token key exists) fails on a
  storage that holds the token key with the empty string: the key exists and the answer
  is false.
\<close>

theorem isAuthenticated_empty_token_counterexample:
  "localStorage \<lparr>effects = [], localStorage = [''token'' \<mapsto> ''''], common_headers = Map.empty,
                 pathname = ''/''\<rparr> ''token'' = Some ''''
   \<and> \<not> fst (isAuthenticated \<lparr>effects = [], localStorage = [''token'' \<mapsto> ''''],
                               common_headers = Map.empty, pathname = ''/''\<rparr>)"
  by (simp add: isAuthenticated_def getItem_def)

text \<open>
  C7. When the user entry is missing, or is the empty string, or is a string the JSON
  parser refuses, \<open>getCurrentUser\<close> returns \<^verbatim>\<open>null\<close>. It never throws: the only
  throw of the \<^verbatim>\<open>try\<close> block is the parser's \<^verbatim>\<open>SyntaxError\<close>, it happens
  exactly when a non-empty entry fails to parse, and then the \<^verbatim>\<open>catch\<close> clause logs
  it and returns \<^verbatim>\<open>null\<close>. Storage is only read. This holds for every parser and
  every type of values.
\<close>

theorem getCurrentUser_absent_or_malformed:
  assumes "localStorage st ''user'' = None
           \<or> (\<exists>s. localStorage st ''user'' = Some s \<and> (s = [] \<or> parse s = None))"
  shows "fst (getCurrentUser null parse st) = null
       \<and> snd (getCurrentUser null parse st) =
           emit (GetItem ''user'' #
                 (if \<exists>s. localStorage st ''user'' = Some s \<and> s \<noteq> [] \<and> parse s = None
                  then [ConsoleError ''Error parsing user data:''] else [])) st
       \<and> (fst (getCurrentUser_try null parse st) = Inl SyntaxError) =
           (\<exists>s. localStorage st ''user'' = Some s \<and> s \<noteq> [] \<and> parse s = None)"
  using assms
  by (auto simp: getCurrentUser_def getCurrentUser_try_def getItem_def console_error_def emit_def
      split: option.splits)

text \<open>
  Two runs of the helper: on an empty storage, and on an entry that is not JSON. The parser
  of the runs is \<^verbatim>\<open>JSON.parse\<close> on the two texts it is given here: it reads
  \<^verbatim>\<open>{"name":"Ann"}\<close> and refuses \<^verbatim>\<open>{name: Ann\<close>.
\<close>

theorem getCurrentUser_absent_or_malformed_witness:
  "getCurrentUser JNull
       (\<lambda>s. if s = ''{\"name\":\"Ann\"}'' then Some (JObj [(''name'', JStr ''Ann'')]) else None)
       \<lparr>effects = [], localStorage = Map.empty, common_headers = Map.empty, pathname = ''/''\<rparr>
     = (JNull, \<lparr>effects = [GetItem ''user''], localStorage = Map.empty,
                common_headers = Map.empty, pathname = ''/''\<rparr>)
   \<and> getCurrentUser JNull
       (\<lambda>s. if s = ''{\"name\":\"Ann\"}'' then Some (JObj [(''name'', JStr ''Ann'')]) else None)
       \<lparr>effects = [], localStorage = [''user'' \<mapsto> ''{name: Ann''], common_headers = Map.empty,
        pathname = ''/''\<rparr>
     = (JNull, \<lparr>effects = [GetItem ''user'', ConsoleError ''Error parsing user data:''],
                localStorage = [''user'' \<mapsto> ''{name: Ann''], common_headers = Map.empty,
                pathname = ''/''\<rparr>)"
  using getCurrentUser_absent_or_malformed
    [of "\<lparr>effects = [], localStorage = Map.empty, common_headers = Map.empty, pathname = ''/''\<rparr>"
        "\<lambda>s. if s = ''{\"name\":\"Ann\"}'' then Some (JObj [(''name'', JStr ''Ann'')]) else None"
        JNull]
    getCurrentUser_absent_or_malformed
    [of "\<lparr>effects = [], localStorage = [''user'' \<mapsto> ''{name: Ann''],
          common_headers = Map.empty, pathname = ''/''\<rparr>"
        "\<lambda>s. if s = ''{\"name\":\"Ann\"}'' then Some (JObj [(''name'', JStr ''Ann'')]) else None"
        JNull]
  by (simp add: emit_def prod_eq_iff)

text \<open>
  \<open>setAuth\<close> step by step: when it returns, and what it leaves in storage when it does and
  when it does not.
\<close>

lemma setAuth_returns_iff:
  "(fst (setAuth quota stringify token user st) = Inr ()) =
     (quota ((localStorage st)(''token'' \<mapsto> token))
      \<and> stringify user \<noteq> Stringify_throws
      \<and> quota ((localStorage st)(''token'' \<mapsto> token,
                                   ''user'' \<mapsto> stored_text (stringify user))))"
  by (cases "stringify user")
     (simp_all add: setAuth_def setItem_def localStorage_emit)

lemma setAuth_storage:
  assumes "fst (setAuth quota stringify token user st) = Inr ()"
  shows "localStorage (snd (setAuth quota stringify token user st)) =
           (localStorage st)(''token'' \<mapsto> token, ''user'' \<mapsto> stored_text (stringify user))"
  using assms
  by (cases "stringify user")
     (simp_all add: setAuth_def setItem_def set_common_header_def localStorage_emit
        split: if_splits)

lemma setAuth_storage_thrown:
  assumes "fst (setAuth quota stringify token user st) \<noteq> Inr ()"
  shows "localStorage (snd (setAuth quota stringify token user st)) =
           (if quota ((localStorage st)(''token'' \<mapsto> token))
            then (localStorage st)(''token'' \<mapsto> token) else localStorage st)"
  using assms
  by (cases "stringify user")
     (simp_all add: setAuth_def setItem_def set_common_header_def localStorage_emit
        split: if_splits)

lemma clearAuth_storage:
  "localStorage (clearAuth st) = (localStorage st)(''token'' := None, ''user'' := None)"
  by (simp add: clearAuth_def removeItem_def delete_common_header_def emit_def Let_def)






lemma response_onRejected_storage:
  "localStorage (snd (response_onRejected error st)) =
     (if \<exists>resp. response error = Some resp \<and> status resp = 401
      then (localStorage st)(''token'' := None, ''user'' := None)
      else localStorage st)"
  by (auto simp: response_onRejected_def Let_def on_unauthorized_eq console_error_def
      localStorage_emit split: option.splits)

lemma auth_paired_response_onRejected:
  "auth_paired st \<Longrightarrow> auth_paired (snd (response_onRejected error st))"
  by (simp add: auth_paired_def response_onRejected_storage)

lemma isAuthenticated_storage: "localStorage (snd (isAuthenticated st)) = localStorage st"
  by (simp add: isAuthenticated_def getItem_def localStorage_emit)

lemma getCurrentUser_storage:
  "localStorage (snd (getCurrentUser null parse st)) = localStorage st"
  by (simp add: getCurrentUser_def getCurrentUser_try_def getItem_def console_error_def
      localStorage_emit split: option.splits)

lemma auth_paired_run_op:
  assumes "auth_paired st" and "completes quota stringify opn st"
  shows "auth_paired (run_op quota null parse stringify opn st)"
proof (cases opn)
  case (SetAuth token user)
  with assms(2) have "fst (setAuth quota stringify token user st) = Inr ()"
    by simp
  with SetAuth show ?thesis
    by (simp add: auth_paired_def setAuth_storage)
next
  case ClearAuth
  then show ?thesis by (simp add: auth_paired_def clearAuth_storage)
next
  case IsAuthenticated
  with assms(1) show ?thesis by (simp add: auth_paired_def isAuthenticated_storage)
next
  case GetCurrentUser
  with assms(1) show ?thesis by (simp add: auth_paired_def getCurrentUser_storage)
next
  case (ResponseError error)
  with assms(1) show ?thesis by (simp add: auth_paired_response_onRejected)
qed

lemma auth_paired_run_ops:
  assumes "auth_paired st" and "all_complete quota null parse stringify ops st"
  shows "auth_paired (run_ops quota null parse stringify ops st)"
  using assms
  by (induction ops arbitrary: st) (simp_all add: auth_paired_run_op)

text \<open>
  C9, as the code has it. The token key and the user key go together as long as
  \<open>setAuth\<close> runs to its end: a \<open>setAuth\<close> that returns has set both, \<open>clearAuth\<close> removes
  both, the 401 branch of the response interceptor removes both; hence every operation of
  the module that is not a throwing \<open>setAuth\<close>, and every sequence of such operations, keeps
  the invariant that the token key is present exactly when the user key is. A \<open>setAuth\<close>
  that throws has no \<^verbatim>\<open>try\<close> around it and undoes nothing: thrown by its first
  line it leaves storage as it was, thrown by its second line (by
  \<^verbatim>\<open>JSON.stringify\<close>, or by \<^verbatim>\<open>setItem\<close> for want of room) it leaves the
  token written and the user entry as it was before the call.
\<close>

theorem token_and_user_paired:
  "(fst (setAuth quota stringify token user st) = Inr () \<longrightarrow>
      localStorage (snd (setAuth quota stringify token user st)) ''token'' = Some token
      \<and> localStorage (snd (setAuth quota stringify token user st)) ''user''
          = Some (stored_text (stringify user)))
   \<and> (fst (setAuth quota stringify token user st) \<noteq> Inr ()
        \<and> quota ((localStorage st)(''token'' \<mapsto> token)) \<longrightarrow>
      localStorage (snd (setAuth quota stringify token user st)) ''token'' = Some token
      \<and> localStorage (snd (setAuth quota stringify token user st)) ''user''
          = localStorage st ''user'')
   \<and> (fst (setAuth quota stringify token user st) \<noteq> Inr ()
        \<and> \<not> quota ((localStorage st)(''token'' \<mapsto> token)) \<longrightarrow>
      localStorage (snd (setAuth quota stringify token user st)) = localStorage st)
   \<and> (localStorage (clearAuth st) ''token'' = None \<and> localStorage (clearAuth st) ''user'' = None)
   \<and> (\<forall>resp. response error = Some resp \<and> status resp = 401 \<longrightarrow>
         localStorage (snd (response_onRejected error st)) ''token'' = None
         \<and> localStorage (snd (response_onRejected error st)) ''user'' = None)
   \<and> (auth_paired st \<and> completes quota stringify opn st \<longrightarrow>
         auth_paired (run_op quota null parse stringify opn st))
   \<and> (auth_paired st \<and> all_complete quota null parse stringify ops st \<longrightarrow>
         auth_paired (run_ops quota null parse stringify ops st))"
  by (simp add: setAuth_storage setAuth_storage_thrown clearAuth_storage
      response_onRejected_storage auth_paired_run_op auth_paired_run_ops)

text \<open>
  A session on an empty storage: two logins, each followed by reads, the first ended by a
  401 and the second by a logout. Every operation completes and the invariant holds at
  the end; and a 401 on stored credentials removes both entries. The parser of the session
  is \<^verbatim>\<open>JSON.parse\<close> on the one text it is given, the first profile.
\<close>

theorem token_and_user_paired_witness:
  "auth_paired \<lparr>effects = [], localStorage = Map.empty, common_headers = Map.empty,
                pathname = ''/''\<rparr>
   \<and> all_complete (\<lambda>content. True) JNull
          (\<lambda>s. if s = ''{\"name\":\"Ann\"}'' then Some (JObj [(''name'', JStr ''Ann'')]) else None)
          (JSON_stringify (\<lambda>r. ''0''))
          [SetAuth ''abc'' (JObj [(''name'', JStr ''Ann'')]), IsAuthenticated, GetCurrentUser,
           ResponseError \<lparr>config = None, response = Some \<lparr>status = 401, data = JNull\<rparr>,
                          request = True, message = ''Request failed with status code 401''\<rparr>,
           SetAuth ''def'' (JObj [(''name'', JStr ''Bo'')]), ClearAuth]
          \<lparr>effects = [], localStorage = Map.empty, common_headers = Map.empty,
           pathname = ''/''\<rparr>
   \<and> auth_paired
       (run_ops (\<lambda>content. True) JNull
          (\<lambda>s. if s = ''{\"name\":\"Ann\"}'' then Some (JObj [(''name'', JStr ''Ann'')]) else None)
          (JSON_stringify (\<lambda>r. ''0''))
          [SetAuth ''abc'' (JObj [(''name'', JStr ''Ann'')]), IsAuthenticated, GetCurrentUser,
           ResponseError \<lparr>config = None, response = Some \<lparr>status = 401, data = JNull\<rparr>,
                          request = True, message = ''Request failed with status code 401''\<rparr>,
           SetAuth ''def'' (JObj [(''name'', JStr ''Bo'')]), ClearAuth]
          \<lparr>effects = [], localStorage = Map.empty, common_headers = Map.empty,
           pathname = ''/''\<rparr>)
   \<and> localStorage
       (snd (response_onRejected
          \<lparr>config = None, response = Some \<lparr>status = 401, data = JNull\<rparr>,
           request = True, message = ''Request failed with status code 401''\<rparr>
          \<lparr>effects = [], localStorage = [''token'' \<mapsto> ''abc'', ''user'' \<mapsto> ''{}''],
           common_headers = Map.empty, pathname = ''/''\<rparr>)) ''token'' = None
   \<and> localStorage
       (snd (response_onRejected
          \<lparr>config = None, response = Some \<lparr>status = 401, data = JNull\<rparr>,
           request = True, message = ''Request failed with status code 401''\<rparr>
          \<lparr>effects = [], localStorage = [''token'' \<mapsto> ''abc'', ''user'' \<mapsto> ''{}''],
           common_headers = Map.empty, pathname = ''/''\<rparr>)) ''user'' = None"
proof -
  have start: "auth_paired \<lparr>effects = [], localStorage = Map.empty, common_headers = Map.empty,
                            pathname = ''/''\<rparr>"
    by (simp add: auth_paired_def)
  have complete:
    "all_complete (\<lambda>content. True) JNull
          (\<lambda>s. if s = ''{\"name\":\"Ann\"}'' then Some (JObj [(''name'', JStr ''Ann'')]) else None)
          (JSON_stringify (\<lambda>r. ''0''))
          [SetAuth ''abc'' (JObj [(''name'', JStr ''Ann'')]), IsAuthenticated, GetCurrentUser,
           ResponseError \<lparr>config = None, response = Some \<lparr>status = 401, data = JNull\<rparr>,
                          request = True, message = ''Request failed with status code 401''\<rparr>,
           SetAuth ''def'' (JObj [(''name'', JStr ''Bo'')]), ClearAuth]
          \<lparr>effects = [], localStorage = Map.empty, common_headers = Map.empty,
           pathname = ''/''\<rparr>"
    by (simp add: setAuth_returns_iff)
  show ?thesis
    using start complete
      token_and_user_paired
        [of "\<lambda>content. True" "JSON_stringify (\<lambda>r. ''0'')" "''abc''" JNull
            "\<lparr>effects = [], localStorage = Map.empty, common_headers = Map.empty, pathname = ''/''\<rparr>"
            "\<lparr>config = None, response = Some \<lparr>status = 401, data = JNull\<rparr>,
              request = True, message = ''Request failed with status code 401''\<rparr>"
            ClearAuth JNull 
            "\<lambda>s. if s = ''{\"name\":\"Ann\"}'' then Some (JObj [(''name'', JStr ''Ann'')]) else None"
           
            "[SetAuth ''abc'' (JObj [(''name'', JStr ''Ann'')]), IsAuthenticated, GetCurrentUser,
              ResponseError \<lparr>config = None, response = Some \<lparr>status = 401, data = JNull\<rparr>,
                          request = True, message = ''Request failed with status code 401''\<rparr>,
              SetAuth ''def'' (JObj [(''name'', JStr ''Bo'')]), ClearAuth]"]
      token_and_user_paired
        [of "\<lambda>content. True" "JSON_stringify (\<lambda>r. ''0'')" "''abc''" JNull
            "\<lparr>effects = [], localStorage = [''token'' \<mapsto> ''abc'', ''user'' \<mapsto> ''{}''],
              common_headers = Map.empty, pathname = ''/''\<rparr>"
            "\<lparr>config = None, response = Some \<lparr>status = 401, data = JNull\<rparr>,
              request = True, message = ''Request failed with status code 401''\<rparr>"
            ClearAuth JNull 
            "\<lambda>s. if s = ''{\"name\":\"Ann\"}'' then Some (JObj [(''name'', JStr ''Ann'')]) else None"
            "[]"]
    by simp
qed

text \<open>
  The specification's sentence, that every client auth operation preserves the invariant
  and that token and user are never set separately, fails on a \<open>setAuth\<close> that throws in
  its second line. On an empty storage, \<^verbatim>\<open>setAuth('abc', {id: 7n})\<close> writes the
  token, then \<^verbatim>\<open>JSON.stringify\<close> throws on the big integer: the token key is
  present and the user key is not.
\<close>

theorem setAuth_throws_between_writes_counterexample:
  "auth_paired \<lparr>effects = [], localStorage = Map.empty, common_headers = Map.empty,
                pathname = ''/''\<rparr>
   \<and> setAuth (\<lambda>content. True) (JSON_stringify (\<lambda>r. ''0'')) ''abc'' (JObj [(''id'', JBigInt 7)])
       \<lparr>effects = [], localStorage = Map.empty, common_headers = Map.empty, pathname = ''/''\<rparr>
     = (Inl StringifyError,
        \<lparr>effects = [SetItem ''token'' ''abc''], localStorage = [''token'' \<mapsto> ''abc''],
         common_headers = Map.empty, pathname = ''/''\<rparr>)
   \<and> \<not> auth_paired
         (snd (setAuth (\<lambda>content. True) (JSON_stringify (\<lambda>r. ''0'')) ''abc''
                 (JObj [(''id'', JBigInt 7)])
                 \<lparr>effects = [], localStorage = Map.empty, common_headers = Map.empty,
                  pathname = ''/''\<rparr>))"
  by (simp add: setAuth_def setItem_def emit_def auth_paired_def)

text \<open>
  The same happens with a user that JSON can carry when the browser has room for the
  token and not for the profile: here it accepts at most one entry.
\<close>

lemma setAuth_quota_between_writes_example:
  "setAuth (\<lambda>content. content ''token'' = None \<or> content ''user'' = None)
       (JSON_stringify (\<lambda>r. ''0'')) ''abc'' JNull
       \<lparr>effects = [], localStorage = Map.empty, common_headers = Map.empty, pathname = ''/''\<rparr>
     = (Inl QuotaExceededError,
        \<lparr>effects = [SetItem ''token'' ''abc''], localStorage = [''token'' \<mapsto> ''abc''],
         common_headers = Map.empty, pathname = ''/''\<rparr>)"
  by (simp add: setAuth_def setItem_def emit_def stored_text_def)

section \<open>Properties of the bootstrap\<close>

lemma readyState_console_out: "readyState (console_out msgs st) = readyState st"
  by (simp add: console_out_def)

lemma listening_console_out: "listening (console_out msgs st) = listening st"
  by (simp add: console_out_def)

lemma exit_code_console_out: "exit_code (console_out msgs st) = exit_code st"
  by (simp add: console_out_def)

lemma env_console_out: "env (console_out msgs st) = env st"
  by (simp add: console_out_def)

lemma mongodb_uri_console_out: "mongodb_uri (console_out msgs st) = mongodb_uri st"
  by (simp add: mongodb_uri_def env_or_def console_out_def)

lemma connectDB_fails:
  assumes "driver (mongodb_uri st) = Fails error_name"
  shows "fst (connectDB driver st) = None"
    and "readyState (snd (connectDB driver st)) = 0"
    and "listening (snd (connectDB driver st)) = listening st"
    and "exit_code (snd (connectDB driver st)) = exit_code st"
    and "env (snd (connectDB driver st)) = env st"
  using assms
  by (simp_all add: connectDB_def mongoose_connect_def Let_def mongodb_uri_console_out
      readyState_console_out listening_console_out exit_code_console_out env_console_out)

lemma app_listen_Listens:
  "fst (app_listen Listens st) = Inr ()"
  "listening (snd (app_listen Listens st))"
  "readyState (snd (app_listen Listens st)) = readyState st"
  "exit_code (snd (app_listen Listens st)) = exit_code st"
  "env (snd (app_listen Listens st)) = env st"
  by (simp_all add: app_listen_def Let_def console_out_def)

lemma bootstrap_Listens:
  "bootstrap driver Listens st = snd (app_listen Listens (snd (connectDB driver st)))"
  by (simp add: bootstrap_def startServer_def split_beta app_listen_Listens(1)
      split: prod.splits sum.splits)

text \<open>
  The bootstrap of \<^verbatim>\<open>src/unnamed/part_000\<close>. When its connection attempt fails
  (in a running process, and with \<^verbatim>\<open>app.listen\<close> not throwing), \<open>connectDB\<close>
  returns no handle, the process has not exited, the HTTP server listens, and
  \<^verbatim>\<open>GET /api/health\<close> answers 200 with the database field
  \<^verbatim>\<open>Disconnected\<close>. The field is computed from the connection's ready state when
  the request is served: in any later state of a running server it is
  \<^verbatim>\<open>Connected\<close> exactly when the ready state is 1.
\<close>

lemma degraded_start:
  assumes "driver (mongodb_uri st) = Fails error_name"
      and "exit_code st = None"
  shows "fst (connectDB driver st) = None
       \<and> exit_code (bootstrap driver Listens st) = None
       \<and> listening (bootstrap driver Listens st)
       \<and> (\<exists>body. http_get ''/api/health'' now (bootstrap driver Listens st) = Reply 200 body
                  \<and> map_of body ''database'' = Some (JStr ''Disconnected''))
       \<and> (\<forall>st'. exit_code st' = None \<and> listening st' \<longrightarrow>
             (\<exists>body. http_get ''/api/health'' now st' = Reply 200 body
                  \<and> map_of body ''database'' =
                      Some (JStr (if readyState st' = 1 then ''Connected'' else ''Disconnected''))))"
  using assms
  by (simp add: bootstrap_Listens app_listen_Listens connectDB_fails http_get_def api_health_def
      database_state_def)

lemma degraded_start_example:
  "fst (connectDB (\<lambda>uri. Fails ''MongooseServerSelectionError'')
         \<lparr>env = Map.empty, readyState = 0, listening = False, exit_code = None, console = []\<rparr>)
     = None
   \<and> exit_code (bootstrap (\<lambda>uri. Fails ''MongooseServerSelectionError'') Listens
         \<lparr>env = Map.empty, readyState = 0, listening = False, exit_code = None, console = []\<rparr>)
     = None
   \<and> listening (bootstrap (\<lambda>uri. Fails ''MongooseServerSelectionError'') Listens
         \<lparr>env = Map.empty, readyState = 0, listening = False, exit_code = None, console = []\<rparr>)
   \<and> http_get ''/api/health'' ''2025-01-01T00:00:00.000Z''
        (bootstrap (\<lambda>uri. Fails ''MongooseServerSelectionError'') Listens
           \<lparr>env = Map.empty, readyState = 0, listening = False, exit_code = None, console = []\<rparr>)
     = Reply 200
         [(''status'', JStr ''OK''), (''message'', JStr ''Server is running''),
          (''timestamp'', JStr ''2025-01-01T00:00:00.000Z''),
          (''environment'', JStr ''development''), (''database'', JStr ''Disconnected'')]"
  using degraded_start
    [of "\<lambda>uri. Fails ''MongooseServerSelectionError''"
        "\<lparr>env = Map.empty, readyState = 0, listening = False, exit_code = None, console = []\<rparr>"
        "''MongooseServerSelectionError''" "''2025-01-01T00:00:00.000Z''"]
  by (auto simp: http_get_def api_health_def database_state_def env_or_def bootstrap_Listens
      app_listen_Listens connectDB_fails)

lemma backend_server_js_exits:
  assumes "driver (mongodb_uri st) = Fails error_name"
  shows "exit_code (backend_server_js driver st) = Some 1"
  using assms
  by (simp add: backend_server_js_def mongoose_connect_def Let_def mongodb_uri_console_out
      mongodb_uri_def env_or_def console_out_def)

text \<open>
  C1 does not hold of \<^verbatim>\<open>src/backend/server.js\<close>, the other bootstrap the claim
  is drawn from. It has no \<open>connectDB\<close>; when its connection attempt fails, the handler
  of the rejection ends the process with exit code 1, after which no request is answered,
  \<^verbatim>\<open>GET /api/health\<close> included; and the answer of its health route, while the
  process runs, has no database field at all, whatever the state of the connection.
\<close>

theorem backend_server_js_exits_on_failed_connection:
  assumes "driver (mongodb_uri st) = Fails error_name"
  shows "exit_code (backend_server_js driver st) = Some 1
       \<and> backend_http_get ''/api/health'' now (backend_server_js driver st) = NoAnswer
       \<and> map_of (snd (backend_api_health now st')) ''database'' = None"
  using assms
  by (simp add: backend_server_js_exits backend_http_get_def backend_api_health_def)

theorem backend_server_js_exits_on_failed_connection_witness:
  "exit_code (backend_server_js (\<lambda>uri. Fails ''MongooseServerSelectionError'')
       \<lparr>env = Map.empty, readyState = 0, listening = False, exit_code = None, console = []\<rparr>)
     = Some 1
   \<and> backend_http_get ''/api/health'' ''2025-01-01T00:00:00.000Z''
       (backend_server_js (\<lambda>uri. Fails ''MongooseServerSelectionError'')
          \<lparr>env = Map.empty, readyState = 0, listening = False, exit_code = None, console = []\<rparr>)
     = NoAnswer
   \<and> backend_http_get ''/api/health'' ''2025-01-01T00:00:00.000Z''
       \<lparr>env = Map.empty, readyState = 0, listening = True, exit_code = None, console = []\<rparr>
     = Reply 200
         [(''status'', JStr ''OK''), (''message'', JStr ''Server is running''),
          (''timestamp'', JStr ''2025-01-01T00:00:00.000Z''),
          (''environment'', JStr ''development'')]"
  using backend_server_js_exits_on_failed_connection
    [of "\<lambda>uri. Fails ''MongooseServerSelectionError''"
        "\<lparr>env = Map.empty, readyState = 0, listening = False, exit_code = None, console = []\<rparr>"
        "''MongooseServerSelectionError''" "''2025-01-01T00:00:00.000Z''"
        "\<lparr>env = Map.empty, readyState = 0, listening = True, exit_code = None, console = []\<rparr>"]
  by (simp add: backend_http_get_def backend_api_health_def env_or_def)

end
